theory Spec2Isabelle
  imports Complex_Main "HOL-Library.Multiset"
begin

section \<open>Frame API (backend/main.py): a model of the request handlers\<close>

text \<open>
  The handlers of \<^verbatim>\<open>backend/main.py\<close> are coroutines over a process-wide connection
  pool. Each handler is modelled as a function that takes the contents of the database
  and returns the new contents together with either the value the handler returns or
  the exception it raises. The clock (\<^verbatim>\<open>datetime.utcnow()\<close>), the random salt of
  \<^verbatim>\<open>bcrypt.gensalt()\<close> and the environment's \<^verbatim>\<open>SECRET_KEY\<close> are read by the source
  from its surroundings; the model takes them as arguments.
\<close>

subsection \<open>Exceptions\<close>

text \<open>
  \<^verbatim>\<open>HTTPException(status_code, detail)\<close> is what the handlers raise themselves. The
  other constructors are exceptions of the libraries and of the framework that no
  handler catches; the framework answers them with the status \<open>status_code\<close> gives.
\<close>

datatype error =
    HTTPException nat string
  | ValueError string
  | DataError string
  | PostgresError string
  | RequestValidationError
  | ResponseValidationError

fun status_code :: "error \<Rightarrow> nat" where
  "status_code (HTTPException c d) = c"
| "status_code (ValueError m) = 500"
| "status_code (DataError m) = 500"
| "status_code (PostgresError m) = 500"
| "status_code RequestValidationError = 422"
| "status_code ResponseValidationError = 500"

definition HTTP_400_BAD_REQUEST :: nat where "HTTP_400_BAD_REQUEST = 400"

definition HTTP_401_UNAUTHORIZED :: nat where "HTTP_401_UNAUTHORIZED = 401"

definition HTTP_404_NOT_FOUND :: nat where "HTTP_404_NOT_FOUND = 404"

subsection \<open>Configuration\<close>

definition ALGORITHM :: string where "ALGORITHM = ''HS256''"

definition ACCESS_TOKEN_EXPIRE_MINUTES :: int where "ACCESS_TOKEN_EXPIRE_MINUTES = 30"

subsection \<open>The database driver\<close>

text \<open>
  The driver (asyncpg) sends an integer argument of a query as a PostgreSQL integer of
  at most 64 bits and raises \<^verbatim>\<open>DataError\<close> for a Python int outside that range,
  before the query runs.
\<close>

definition in_int64 :: "int \<Rightarrow> bool" where
  "in_int64 n = (- (2 ^ 63) \<le> n \<and> n < 2 ^ 63)"

subsection \<open>JSON objects\<close>

text \<open>
  The payload of a token is a Python dict with string keys, kept here in insertion
  order. \<open>dict_update\<close> is \<^verbatim>\<open>d.update({k: v})\<close>: an existing key keeps its place.
\<close>

datatype json = JNull | JInt int | JStr string

type_synonym dict = "(string \<times> json) list"

definition dict_get :: "dict \<Rightarrow> string \<Rightarrow> json option" where
  "dict_get d k = map_of d k"

fun dict_update :: "string \<Rightarrow> json \<Rightarrow> dict \<Rightarrow> dict" where
  "dict_update k v [] = [(k, v)]"
| "dict_update k v ((k', v') # d) =
     (if k' = k then (k, v) # d else (k', v') # dict_update k v d)"

subsection \<open>The bcrypt library\<close>

text \<open>
  Package \<^verbatim>\<open>bcrypt\<close> is a dependency, not part of the source file. The source calls
  \<^verbatim>\<open>gensalt\<close>, \<^verbatim>\<open>hashpw\<close> and \<^verbatim>\<open>checkpw\<close> on byte strings, and these are
  modelled on byte strings: \<^verbatim>\<open>hashpw\<close> reads version, cost and salt from its second
  argument, which may be a salt as \<^verbatim>\<open>gensalt\<close> returns it
  (\<^verbatim>\<open>$2b$<cost>$<22 characters>\<close>) or a whole hash (the same followed by the digest),
  and raises \<^verbatim>\<open>ValueError("Invalid salt")\<close> when it cannot.

  Two things are arguments of the model, in record \<open>bcrypt\<close>. One is the digest
  computation itself, \<open>eks\<close>: from cost, salt and key to the base-64 digits of the
  digest. The other is what \<^verbatim>\<open>hashpw\<close> does with a password of more than 72 bytes:
  releases before 5.0 cut it to 72 bytes, releases from 5.0 on raise \<^verbatim>\<open>ValueError\<close>
  (\<open>raises_on_long\<close>).
\<close>

record bcrypt =
  raises_on_long :: bool
  eks :: "int \<Rightarrow> string \<Rightarrow> string \<Rightarrow> nat list"

text \<open>The alphabet of bcrypt's base-64 and the character of a digit.\<close>

definition b64_alphabet :: string where
  "b64_alphabet = ''./ABCDEFGHIJKLMNOPQRSTUVWXYZabcdefghijklmnopqrstuvwxyz0123456789''"

definition b64_char :: "nat \<Rightarrow> char" where
  "b64_char n = b64_alphabet ! (n mod 64)"

text \<open>
  The 22 characters that encode the 16 bytes of a salt: the last one carries two bits
  only, so it is one of four characters.
\<close>

definition valid_salt :: "string \<Rightarrow> bool" where
  "valid_salt s =
     (length s = 22 \<and> list_all (\<lambda>c. c \<in> set b64_alphabet) s \<and> last s \<in> set ''.Oeu'')"

text \<open>Splitting at a separator, as \<^verbatim>\<open>split\<close> does: \<open>n\<close> separators give \<open>n + 1\<close> parts.\<close>

fun split_on :: "char \<Rightarrow> string \<Rightarrow> string list" where
  "split_on c [] = [[]]"
| "split_on c (x # xs) =
     (if x = c then [] # split_on c xs
      else (x # hd (split_on c xs)) # tl (split_on c xs))"

text \<open>
  The cost is read as an unsigned 32-bit number: decimal digits, after an optional
  plus sign.
\<close>

definition digit :: "char \<Rightarrow> int option" where
  "digit c =
     (let n = (of_char c :: int) in if 48 \<le> n \<and> n \<le> 57 then Some (n - 48) else None)"

fun digits :: "int \<Rightarrow> string \<Rightarrow> int option" where
  "digits acc [] = Some acc"
| "digits acc (c # cs) =
     (case digit c of None \<Rightarrow> None | Some d \<Rightarrow> digits (10 * acc + d) cs)"

definition parse_u32 :: "string \<Rightarrow> int option" where
  "parse_u32 s =
     (let d = (if take 1 s = ''+'' then drop 1 s else s)
      in if d = [] then None
         else case digits 0 d of
                None \<Rightarrow> None
              | Some n \<Rightarrow> if n < 2 ^ 32 then Some n else None)"

definition two_digits :: "int \<Rightarrow> string" where
  "two_digits n = [char_of (48 + n div 10), char_of (48 + n mod 10)]"

text \<open>
  What \<^verbatim>\<open>hashpw\<close> reads from its second argument: the non-empty parts between
  dollar signs must be three, a version, a cost from 4 to 31 and at least 22
  characters of which the first 22 are a salt.
\<close>

definition read_salt :: "string \<Rightarrow> (string \<times> int \<times> string) option" where
  "read_salt s =
     (case filter (\<lambda>p. p \<noteq> []) (split_on CHR ''$'' s) of
        [version, raw_cost, remainder] \<Rightarrow>
          (if version \<notin> set [''2y'', ''2b'', ''2a'', ''2x''] then None
           else case parse_u32 raw_cost of
                  None \<Rightarrow> None
                | Some cost \<Rightarrow>
                    if length remainder < 22 then None
                    else if \<not> valid_salt (take 22 remainder) then None
                    else if cost < 4 \<or> 31 < cost then None
                    else Some (version, cost, take 22 remainder))
      | _ \<Rightarrow> None)"

text \<open>
  The key the algorithm works with: the password followed by a NUL byte, cut at 72
  bytes, and read cyclically until 72 bytes are filled.
\<close>

definition bcrypt_key :: "string \<Rightarrow> string" where
  "bcrypt_key password =
     (let key = take 72 (password @ [CHR 0x00])
      in take 72 (concat (replicate 72 key)))"

text \<open>The characters of the digest, as they stand at the end of a hash.\<close>

definition bcrypt_digest :: "bcrypt \<Rightarrow> int \<Rightarrow> string \<Rightarrow> string \<Rightarrow> string" where
  "bcrypt_digest lib cost salt key = map b64_char (eks lib cost salt key)"

definition hashpw :: "bcrypt \<Rightarrow> string \<Rightarrow> string \<Rightarrow> error + string" where
  "hashpw lib password salt =
     (if 72 < length password \<and> raises_on_long lib then
        Inl (ValueError
          ''password cannot be longer than 72 bytes, truncate manually if necessary (e.g. my_password[:72])'')
      else case read_salt salt of
             None \<Rightarrow> Inl (ValueError ''Invalid salt'')
           | Some (version, cost, raw_salt) \<Rightarrow>
               Inr (''$'' @ version @ ''$'' @ two_digits cost @ ''$'' @ raw_salt
                    @ bcrypt_digest lib cost raw_salt (bcrypt_key password)))"

text \<open>\<^verbatim>\<open>bcrypt.checkpw\<close> hashes the password with the stored hash as salt and compares.\<close>

definition checkpw :: "bcrypt \<Rightarrow> string \<Rightarrow> string \<Rightarrow> error + bool" where
  "checkpw lib password hashed_password =
     (case hashpw lib password hashed_password of
        Inl e \<Rightarrow> Inl e
      | Inr h \<Rightarrow> Inr (h = hashed_password))"

text \<open>
  \<^verbatim>\<open>bcrypt.gensalt()\<close>: version 2b, cost 12 and the 22 characters of 16 random
  bytes, here the argument.
\<close>

definition gensalt :: "string \<Rightarrow> string" where
  "gensalt random = ''$2b$12$'' @ random"

text \<open>
  \<^verbatim>\<open>hash_password\<close> and \<^verbatim>\<open>verify_password\<close> of the source. Passwords are the bytes
  that \<^verbatim>\<open>encode('utf-8')\<close> gives. Neither function catches an exception.
\<close>

definition hash_password :: "bcrypt \<Rightarrow> string \<Rightarrow> string \<Rightarrow> error + string" where
  "hash_password lib random password = hashpw lib password (gensalt random)"

definition verify_password :: "bcrypt \<Rightarrow> string \<Rightarrow> string \<Rightarrow> error + bool" where
  "verify_password lib plain_password hashed_password =
     checkpw lib plain_password hashed_password"

subsection \<open>The jwt library\<close>

text \<open>
  Modelled from the spec: package \<^verbatim>\<open>jwt\<close> (PyJWT), whose \<^verbatim>\<open>encode\<close> and
  \<^verbatim>\<open>decode\<close> the source calls, is a dependency and not part of the source file. A
  token is a signed, tamper-evident structure holding the subject and an absolute
  expiration instant; verification fails when the signature does not match, the
  structure is malformed, the current time is past the expiration, or the token was
  signed with another key or algorithm.

  The signature is symbolic, in the manner of perfect cryptography: a free constructor
  over algorithm, key, header and payload, so two signatures are equal only when all
  four are. A credential string is either a token of three parts or any other string.
  The clock and the \<^verbatim>\<open>exp\<close> claim count whole seconds.
\<close>

record header =
  alg :: string
  jose_typ :: string

datatype signature =
    HMAC string string header dict
  | OtherBytes string

datatype jwt =
    JWS header dict signature
  | NotJWS string

datatype jwt_error =
    DecodeError
  | InvalidAlgorithmError
  | InvalidSignatureError
  | ExpiredSignatureError

definition jwt_encode :: "dict \<Rightarrow> string \<Rightarrow> string \<Rightarrow> jwt" where
  "jwt_encode payload key algorithm =
     (let h = \<lparr>alg = algorithm, jose_typ = ''JWT''\<rparr>
      in JWS h payload (HMAC algorithm key h payload))"

fun jwt_decode :: "jwt \<Rightarrow> string \<Rightarrow> string list \<Rightarrow> int \<Rightarrow> jwt_error + dict" where
  "jwt_decode (NotJWS x) key algorithms now = Inl DecodeError"
| "jwt_decode (JWS h payload s) key algorithms now =
     (if alg h \<notin> set algorithms then Inl InvalidAlgorithmError
      else if s \<noteq> HMAC (alg h) key h payload then Inl InvalidSignatureError
      else (case dict_get payload ''exp'' of
              None \<Rightarrow> Inr payload
            | Some (JInt expiry) \<Rightarrow>
                if expiry \<le> now then Inl ExpiredSignatureError else Inr payload
            | Some _ \<Rightarrow> Inl DecodeError))"

subsection \<open>Issuing and checking tokens\<close>

text \<open>
  \<^verbatim>\<open>create_access_token\<close>: the copy of \<open>data\<close> gets \<^verbatim>\<open>exp\<close>, thirty minutes from
  now, and is signed with the secret key.
\<close>

definition create_access_token :: "string \<Rightarrow> int \<Rightarrow> dict \<Rightarrow> jwt" where
  "create_access_token SECRET_KEY now data =
     (let expire = now + ACCESS_TOKEN_EXPIRE_MINUTES * 60;
          to_encode = dict_update ''exp'' (JInt expire) data
      in jwt_encode to_encode SECRET_KEY ALGORITHM)"

text \<open>
  The first half of \<^verbatim>\<open>get_current_user\<close> (the \<^verbatim>\<open>try\<close> block): every error of
  \<^verbatim>\<open>jwt.decode\<close> and a missing or null \<^verbatim>\<open>sub\<close> become the same 401.
\<close>

definition token_user_id :: "string \<Rightarrow> int \<Rightarrow> jwt \<Rightarrow> error + json" where
  "token_user_id SECRET_KEY now token =
     (case jwt_decode token SECRET_KEY [ALGORITHM] now of
        Inl e \<Rightarrow> Inl (HTTPException HTTP_401_UNAUTHORIZED ''Invalid authentication credentials'')
      | Inr payload \<Rightarrow>
          (case dict_get payload ''sub'' of
             None \<Rightarrow> Inl (HTTPException HTTP_401_UNAUTHORIZED ''Invalid authentication credentials'')
           | Some JNull \<Rightarrow> Inl (HTTPException HTTP_401_UNAUTHORIZED ''Invalid authentication credentials'')
           | Some user_id \<Rightarrow> Inr user_id))"

subsection \<open>Rows and tables\<close>

text \<open>
  Field \<open>u_x\<close> is column \<^verbatim>\<open>x\<close> of table \<^verbatim>\<open>users\<close>, field \<open>m_x\<close> column \<^verbatim>\<open>x\<close> of
  table \<^verbatim>\<open>movies\<close>. Timestamps are instants on the clock's scale.
\<close>

record user_row =
  u_id :: int
  u_email :: string
  u_username :: string
  u_password_hash :: string
  u_created_at :: int
  u_is_active :: bool

record movie_row =
  m_id :: int
  m_title :: string
  m_genre :: string
  m_duration :: int
  m_rating :: real
  m_description :: string
  m_poster_url :: string
  m_is_new :: bool
  m_created_at :: int
  m_views_count :: int
  m_user_id :: int

text \<open>
  Modelled from the spec: the schema of the database, which is not part of the source
  file. An id is assigned by storage on insert (the two sequences), a new user is
  active and a new movie's view counter is 0.
\<close>

record database =
  users :: "user_row list"
  movies :: "movie_row list"
  next_user_id :: int
  next_movie_id :: int

subsection \<open>Request and response models\<close>

text \<open>
  Classes MovieBase, MovieCreate (which adds nothing) and Movie. Movie is the
  \<^verbatim>\<open>response_model\<close> of the movie routes; it has no field for the owner.
\<close>

record MovieBase =
  title :: string
  genre :: string
  duration :: int
  rating :: real
  description :: string
  poster_url :: string
  is_new :: bool

type_synonym MovieCreate = MovieBase

record Movie = MovieBase +
  id' :: int
  created_at :: int
  views_count :: int

text \<open>
  Text is held as its UTF-8 bytes. Python's \<^verbatim>\<open>len\<close> counts characters: every byte
  but the continuation bytes (0x80 to 0xBF) starts one.
\<close>

definition python_len :: "string \<Rightarrow> nat" where
  "python_len s =
     length (filter (\<lambda>c. \<not> (128 \<le> (of_char c :: nat) \<and> (of_char c :: nat) < 192)) s)"

text \<open>
  The \<^verbatim>\<open>Field\<close> constraints of MovieBase, which the framework checks before the
  handler runs.
\<close>

definition valid_MovieCreate :: "MovieCreate \<Rightarrow> bool" where
  "valid_MovieCreate m =
     (1 \<le> python_len (title m) \<and> python_len (title m) \<le> 200 \<and>
      1 \<le> python_len (genre m) \<and> python_len (genre m) \<le> 50 \<and>
      0 < duration m \<and>
      0 \<le> rating m \<and> rating m \<le> 5 \<and>
      python_len (description m) \<le> 1000)"

record UserCreate =
  email :: string
  username :: string
  password :: string

record Token =
  access_token :: jwt
  token_type :: string

subsection \<open>Authentication of a request\<close>

text \<open>
  \<^verbatim>\<open>SELECT * FROM users WHERE id = $1 AND is_active = true\<close> through \<^verbatim>\<open>fetchrow\<close>:
  the first row that matches, or None.
\<close>

definition select_active_user :: "user_row list \<Rightarrow> int \<Rightarrow> user_row option" where
  "select_active_user rows user_id = find (\<lambda>u. u_id u = user_id \<and> u_is_active u) rows"

text \<open>
  \<^verbatim>\<open>get_current_user\<close>. The subject is passed to the query as it is; the driver
  refuses an argument that is not an integer, and an integer outside its range.
\<close>

definition get_current_user :: "string \<Rightarrow> database \<Rightarrow> int \<Rightarrow> jwt \<Rightarrow> error + user_row" where
  "get_current_user SECRET_KEY db now credentials =
     (case token_user_id SECRET_KEY now credentials of
        Inl e \<Rightarrow> Inl e
      | Inr (JInt user_id) \<Rightarrow>
          if \<not> in_int64 user_id then Inl (DataError ''value out of int64 range'')
          else (case select_active_user (users db) user_id of
                  None \<Rightarrow> Inl (HTTPException HTTP_404_NOT_FOUND ''User not found'')
                | Some user \<Rightarrow> Inr user)
      | Inr _ \<Rightarrow> Inl (DataError ''invalid input for query argument $1''))"

text \<open>\<^verbatim>\<open>str.lower\<close> on the ASCII letters.\<close>

definition lower_char :: "char \<Rightarrow> char" where
  "lower_char c =
     (let n = (of_char c :: nat)
      in if 65 \<le> n \<and> n \<le> 90 then char_of (n + 32) else c)"

definition lower :: "string \<Rightarrow> string" where
  "lower s = map lower_char s"

text \<open>
  Modelled from the spec: \<^verbatim>\<open>HTTPBearer\<close>, the class of the framework behind
  \<^verbatim>\<open>security\<close>, is not part of the source file. It extracts the bearer credential
  from the \<^verbatim>\<open>Authorization\<close> header, and its absence rejects the request with 401.
  The header is given as scheme and credentials (the parts before and after the first
  space), or None when the request has no such header.
\<close>

definition HTTPBearer :: "(string \<times> jwt) option \<Rightarrow> error + jwt" where
  "HTTPBearer authorization =
     (case authorization of
        None \<Rightarrow> Inl (HTTPException HTTP_401_UNAUTHORIZED ''Not authenticated'')
      | Some (scheme, credentials) \<Rightarrow>
          if scheme = [] \<or> credentials = NotJWS [] \<or> lower scheme \<noteq> ''bearer'' then
            Inl (HTTPException HTTP_401_UNAUTHORIZED ''Not authenticated'')
          else Inr credentials)"

text \<open>\<^verbatim>\<open>Depends(get_current_user)\<close>, which itself depends on \<^verbatim>\<open>security\<close>.\<close>

definition Depends_get_current_user ::
    "string \<Rightarrow> database \<Rightarrow> int \<Rightarrow> (string \<times> jwt) option \<Rightarrow> error + user_row" where
  "Depends_get_current_user SECRET_KEY db now authorization =
     (case HTTPBearer authorization of
        Inl e \<Rightarrow> Inl e
      | Inr credentials \<Rightarrow> get_current_user SECRET_KEY db now credentials)"

subsection \<open>POST /api/auth/register\<close>

text \<open>\<^verbatim>\<open>SELECT id FROM users WHERE email = $1\<close> through \<^verbatim>\<open>fetchrow\<close>.\<close>

definition select_id_by_email :: "user_row list \<Rightarrow> string \<Rightarrow> int option" where
  "select_id_by_email rows e = map_option u_id (find (\<lambda>u. u_email u = e) rows)"

text \<open>
  \<^verbatim>\<open>register\<close>: an existing row with the email raises 400 before anything else is
  done; otherwise the password is hashed, the row inserted and a token issued for the
  id the INSERT returns.
\<close>

definition register ::
    "string \<Rightarrow> bcrypt \<Rightarrow> database \<Rightarrow> int \<Rightarrow> string \<Rightarrow> UserCreate
      \<Rightarrow> database \<times> (error + Token)" where
  "register SECRET_KEY lib db now random user =
     (case select_id_by_email (users db) (email user) of
        Some existing \<Rightarrow>
          (db, Inl (HTTPException HTTP_400_BAD_REQUEST ''Email already registered''))
      | None \<Rightarrow>
          (case hash_password lib random (password user) of
             Inl e \<Rightarrow> (db, Inl e)
           | Inr hashed_password \<Rightarrow>
               (let new_user = \<lparr>u_id = next_user_id db, u_email = email user,
                                 u_username = username user,
                                 u_password_hash = hashed_password,
                                 u_created_at = now, u_is_active = True\<rparr>;
                    access_token =
                      create_access_token SECRET_KEY now [(''sub'', JInt (u_id new_user))]
                in (db\<lparr>users := users db @ [new_user],
                        next_user_id := next_user_id db + 1\<rparr>,
                    Inr \<lparr>access_token = access_token, token_type = ''bearer''\<rparr>))))"

subsection \<open>GET /api/movies\<close>

text \<open>
  The query of \<^verbatim>\<open>get_movies\<close>, clause by clause. \<^verbatim>\<open>ORDER BY created_at DESC\<close> is
  a stable sort here: rows created at the same instant keep the table's order, which
  SQL leaves open.
\<close>

definition where_genre :: "string option \<Rightarrow> movie_row \<Rightarrow> bool" where
  "where_genre g m = (case g of None \<Rightarrow> True | Some x \<Rightarrow> m_genre m = x)"

definition order_by_created_at_desc :: "movie_row list \<Rightarrow> movie_row list" where
  "order_by_created_at_desc rows = sort_key (\<lambda>m. - m_created_at m) rows"

text \<open>
  \<^verbatim>\<open>get_movies\<close> has no check of \<open>skip\<close> and \<open>limit\<close> of its own. Both are sent as
  64-bit integers, and the database refuses a negative LIMIT or OFFSET.
\<close>

definition get_movies :: "database \<Rightarrow> int \<Rightarrow> int \<Rightarrow> string option \<Rightarrow> error + movie_row list" where
  "get_movies db skip limit g =
     (if \<not> in_int64 limit \<or> \<not> in_int64 skip then Inl (DataError ''value out of int64 range'')
      else if limit < 0 then Inl (PostgresError ''LIMIT must not be negative'')
      else if skip < 0 then Inl (PostgresError ''OFFSET must not be negative'')
      else Inr (take (nat limit) (drop (nat skip)
                  (order_by_created_at_desc (filter (where_genre g) (movies db))))))"

subsection \<open>GET /api/movies/{movie_id}\<close>

text \<open>
  \<^verbatim>\<open>SELECT * FROM movies WHERE id = $1\<close> through \<^verbatim>\<open>fetchrow\<close>: the first row
  that matches, or None.
\<close>

definition select_movie_by_id :: "movie_row list \<Rightarrow> int \<Rightarrow> movie_row option" where
  "select_movie_by_id rows movie_id = find (\<lambda>m. m_id m = movie_id) rows"

text \<open>\<^verbatim>\<open>UPDATE movies SET views_count = views_count + 1 WHERE id = $1\<close>.\<close>

definition update_views_count :: "movie_row list \<Rightarrow> int \<Rightarrow> movie_row list" where
  "update_views_count rows movie_id =
     map (\<lambda>m. if m_id m = movie_id then m\<lparr>m_views_count := m_views_count m + 1\<rparr> else m) rows"

text \<open>
  \<^verbatim>\<open>get_movie\<close>: the row is fetched, a missing row raises 404 before anything is
  written, then the counter is updated and the row fetched before is returned.
  (A Record with columns is truthy, so \<^verbatim>\<open>not movie\<close> holds for None only.) The
  driver refuses an id outside its range when the first query is sent.
\<close>

definition get_movie :: "database \<Rightarrow> int \<Rightarrow> database \<times> (error + movie_row)" where
  "get_movie db movie_id =
     (if \<not> in_int64 movie_id then (db, Inl (DataError ''value out of int64 range''))
      else case select_movie_by_id (movies db) movie_id of
             None \<Rightarrow> (db, Inl (HTTPException HTTP_404_NOT_FOUND ''Movie not found''))
           | Some movie \<Rightarrow>
               (db\<lparr>movies := update_views_count (movies db) movie_id\<rparr>, Inr movie))"

subsection \<open>POST /api/movies\<close>

text \<open>
  \<^verbatim>\<open>create_movie\<close>: the INSERT, with the creator's id and the clock's instant. The
  driver refuses a duration outside its range, and then nothing is inserted. The row
  that \<^verbatim>\<open>RETURNING *\<close> gives is bound to \<^verbatim>\<open>new_movie\<close> and the function ends
  there, with no \<^verbatim>\<open>return\<close>: its value is Python's None.
\<close>

definition create_movie ::
    "database \<Rightarrow> int \<Rightarrow> MovieCreate \<Rightarrow> user_row
      \<Rightarrow> database \<times> (error + movie_row option)" where
  "create_movie db now movie current_user =
     (if \<not> in_int64 (duration movie) then (db, Inl (DataError ''value out of int64 range''))
      else
        (let new_movie = \<lparr>m_id = next_movie_id db, m_title = title movie,
                           m_genre = genre movie, m_duration = duration movie,
                           m_rating = rating movie, m_description = description movie,
                           m_poster_url = poster_url movie, m_is_new = is_new movie,
                           m_created_at = now, m_views_count = 0,
                           m_user_id = u_id current_user\<rparr>
         in (db\<lparr>movies := movies db @ [new_movie],
                 next_movie_id := next_movie_id db + 1\<rparr>, Inr None)))"

text \<open>
  What the framework does with a handler's value under \<^verbatim>\<open>response_model=Movie\<close>:
  the fields of Movie are read from it, and None is not a Movie.
\<close>

definition response_model_Movie :: "movie_row option \<Rightarrow> error + Movie" where
  "response_model_Movie v =
     (case v of
        None \<Rightarrow> Inl ResponseValidationError
      | Some r \<Rightarrow>
          Inr \<lparr>title = m_title r, genre = m_genre r, duration = m_duration r,
               rating = m_rating r, description = m_description r,
               poster_url = m_poster_url r, is_new = m_is_new r,
               id' = m_id r, created_at = m_created_at r,
               views_count = m_views_count r\<rparr>)"

text \<open>
  The route: the dependency is resolved first and its exception ends the request; then
  the body is validated; only then does the handler run.
\<close>

definition post_api_movies ::
    "string \<Rightarrow> database \<Rightarrow> int \<Rightarrow> (string \<times> jwt) option \<Rightarrow> MovieCreate
      \<Rightarrow> database \<times> (error + Movie)" where
  "post_api_movies SECRET_KEY db now authorization movie =
     (case Depends_get_current_user SECRET_KEY db now authorization of
        Inl e \<Rightarrow> (db, Inl e)
      | Inr current_user \<Rightarrow>
          if \<not> valid_MovieCreate movie then (db, Inl RequestValidationError)
          else (case create_movie db now movie current_user of
                  (db', Inl e) \<Rightarrow> (db', Inl e)
                | (db', Inr v) \<Rightarrow> (db', response_model_Movie v)))"

subsection \<open>Example data\<close>

text \<open>A small database on which the theorems below are instantiated.\<close>

definition alice :: user_row where
  "alice = \<lparr>u_id = 1, u_email = ''a@x.com'', u_username = ''alice'',
             u_password_hash =
               ''$2b$12$0123456789abcdefghijkOQ/dBq6Yx7v6nbQzrM1TCcZ3JpKtYafW'',
             u_created_at = 50, u_is_active = True\<rparr>"

definition bob :: user_row where
  "bob = \<lparr>u_id = 2, u_email = ''b@x.com'', u_username = ''bob'',
           u_password_hash =
             ''$2b$12$kjihgfedcba9876543210uWq0zLh2VfQ8sC1yXr5TnE4mAoGdIbPe'',
           u_created_at = 60, u_is_active = False\<rparr>"

definition solaris :: movie_row where
  "solaris = \<lparr>m_id = 1, m_title = ''Solaris'', m_genre = ''Drama'', m_duration = 167,
               m_rating = 4, m_description = ''An ocean that thinks'',
               m_poster_url = ''/p/1.png'', m_is_new = False, m_created_at = 100,
               m_views_count = 3, m_user_id = 1\<rparr>"

definition airplane :: movie_row where
  "airplane = \<lparr>m_id = 2, m_title = ''Airplane'', m_genre = ''Comedy'', m_duration = 88,
                m_rating = 3, m_description = ''Surely'',
                m_poster_url = ''/p/2.png'', m_is_new = False, m_created_at = 200,
                m_views_count = 0, m_user_id = 1\<rparr>"

definition stalker :: movie_row where
  "stalker = \<lparr>m_id = 3, m_title = ''Stalker'', m_genre = ''Drama'', m_duration = 162,
               m_rating = 5, m_description = ''The Zone'',
               m_poster_url = ''/p/3.png'', m_is_new = True, m_created_at = 300,
               m_views_count = 7, m_user_id = 1\<rparr>"

definition db0 :: database where
  "db0 = \<lparr>users = [alice, bob], movies = [solaris, airplane, stalker],
           next_user_id = 3, next_movie_id = 4\<rparr>"

text \<open>
  A digest computation to instantiate \<open>eks\<close> with: two base-64 digits for each byte of
  the key. It stands for no release of the library; it only tells any two keys apart.
\<close>

definition two_digits_per_byte :: "int \<Rightarrow> string \<Rightarrow> string \<Rightarrow> nat list" where
  "two_digits_per_byte cost salt key =
     concat (map (\<lambda>c. [(of_char c :: nat) div 64, (of_char c :: nat) mod 64]) key)"

definition bcrypt_5 :: bcrypt where
  "bcrypt_5 = \<lparr>raises_on_long = True, eks = two_digits_per_byte\<rparr>"

definition mirror :: MovieCreate where
  "mirror = \<lparr>title = ''Mirror'', genre = ''Drama'', duration = 107, rating = 4,
              description = ''Memories'', poster_url = ''/p/4.png'', is_new = True\<rparr>"

text \<open>The row that the body \<open>mirror\<close>, sent by \<open>alice\<close> at instant 1000, adds to \<open>db0\<close>.\<close>

definition mirror_row :: movie_row where
  "mirror_row = \<lparr>m_id = 4, m_title = ''Mirror'', m_genre = ''Drama'', m_duration = 107,
                  m_rating = 4, m_description = ''Memories'',
                  m_poster_url = ''/p/4.png'', m_is_new = True, m_created_at = 1000,
                  m_views_count = 0, m_user_id = 1\<rparr>"

section \<open>Theorems\<close>

subsection \<open>Tokens\<close>

lemma dict_get_update_same: "dict_get (dict_update k v d) k = Some v"
  by (induction d) (auto simp: dict_get_def)

lemma jwt_decode_issued:
  "jwt_decode (create_access_token SECRET_KEY issued data) SECRET_KEY [ALGORITHM] now =
     (if issued + 1800 \<le> now then Inl ExpiredSignatureError
      else Inr (dict_update ''exp'' (JInt (issued + 1800)) data))"
  by (simp add: create_access_token_def jwt_encode_def Let_def ACCESS_TOKEN_EXPIRE_MINUTES_def
      dict_get_update_same)

lemma jwt_decode_other_signature:
  assumes "s \<noteq> HMAC (alg h) SECRET_KEY h payload"
  shows "\<exists>e. jwt_decode (JWS h payload s) SECRET_KEY algorithms now = Inl e"
  using assms by simp

lemma token_user_id_decode_error:
  assumes "jwt_decode token SECRET_KEY [ALGORITHM] now = Inl e"
  shows "token_user_id SECRET_KEY now token
           = Inl (HTTPException 401 ''Invalid authentication credentials'')"
  using assms by (simp add: token_user_id_def HTTP_401_UNAUTHORIZED_def)

text \<open>
  Claim C1. For every user id \<open>uid\<close>, the token that \<open>create_access_token\<close> makes
  for subject \<open>uid\<close> passes the token check of \<open>get_current_user\<close>, which yields
  \<open>uid\<close>, whenever it is checked less than 30 minutes after it was issued. The check
  fails with 401 when that token is checked 30 minutes after issue or later, and for any
  token whose \<open>exp\<close> is not in the future; when the token was signed with another
  secret key; when the payload is not the one that was signed; when the credential is not
  a token at all; and when the header names an algorithm other than HS256.
\<close>

theorem token_check_accepts_fresh_rejects_others:
  "(now < issued + 30 * 60 \<longrightarrow>
      token_user_id SECRET_KEY now (create_access_token SECRET_KEY issued [(''sub'', JInt uid)])
        = Inr (JInt uid))
   \<and> (issued + 30 * 60 \<le> now \<longrightarrow>
      token_user_id SECRET_KEY now (create_access_token SECRET_KEY issued [(''sub'', JInt uid)])
        = Inl (HTTPException 401 ''Invalid authentication credentials''))
   \<and> (dict_get payload ''exp'' = Some (JInt expiry) \<and> expiry \<le> now \<longrightarrow>
      token_user_id SECRET_KEY now (JWS h payload s)
        = Inl (HTTPException 401 ''Invalid authentication credentials''))
   \<and> (other_key \<noteq> SECRET_KEY \<longrightarrow>
      token_user_id SECRET_KEY now (create_access_token other_key issued [(''sub'', JInt uid)])
        = Inl (HTTPException 401 ''Invalid authentication credentials'')
      \<and> token_user_id SECRET_KEY now (JWS h payload (HMAC a other_key h payload))
        = Inl (HTTPException 401 ''Invalid authentication credentials''))
   \<and> (altered \<noteq> payload \<longrightarrow>
      token_user_id SECRET_KEY now (JWS h altered (HMAC a k h payload))
        = Inl (HTTPException 401 ''Invalid authentication credentials''))
   \<and> token_user_id SECRET_KEY now (NotJWS x)
        = Inl (HTTPException 401 ''Invalid authentication credentials'')
   \<and> (alg h \<noteq> ALGORITHM \<longrightarrow>
      token_user_id SECRET_KEY now (JWS h payload s)
        = Inl (HTTPException 401 ''Invalid authentication credentials''))"
proof (intro conjI impI)
  let ?token = "create_access_token SECRET_KEY issued [(''sub'', JInt uid)]"
  let ?payload = "dict_update ''exp'' (JInt (issued + 1800)) [(''sub'', JInt uid)]"
  let ?rejected = "Inl (HTTPException 401 ''Invalid authentication credentials'') :: error + json"
  show "token_user_id SECRET_KEY now ?token = Inr (JInt uid)" if "now < issued + 30 * 60"
  proof -
    from that have "jwt_decode ?token SECRET_KEY [ALGORITHM] now = Inr ?payload"
      by (simp add: jwt_decode_issued)
    moreover have "dict_get ?payload ''sub'' = Some (JInt uid)"
      by (simp add: dict_get_def)
    ultimately show ?thesis
      by (simp add: token_user_id_def)
  qed
  show "token_user_id SECRET_KEY now ?token = ?rejected" if "issued + 30 * 60 \<le> now"
  proof -
    from that have "jwt_decode ?token SECRET_KEY [ALGORITHM] now = Inl ExpiredSignatureError"
      by (simp add: jwt_decode_issued)
    then show ?thesis
      by (rule token_user_id_decode_error)
  qed
  show "token_user_id SECRET_KEY now (JWS h payload s) = ?rejected"
    if "dict_get payload ''exp'' = Some (JInt expiry) \<and> expiry \<le> now"
  proof -
    from that have "\<exists>e. jwt_decode (JWS h payload s) SECRET_KEY [ALGORITHM] now = Inl e"
      by simp
    then show ?thesis
      using token_user_id_decode_error by blast
  qed
  show "token_user_id SECRET_KEY now (create_access_token other_key issued [(''sub'', JInt uid)])
          = ?rejected" if "other_key \<noteq> SECRET_KEY"
  proof -
    from that have "\<exists>e. jwt_decode (create_access_token other_key issued [(''sub'', JInt uid)])
                 SECRET_KEY [ALGORITHM] now = Inl e"
      by (simp add: create_access_token_def jwt_encode_def Let_def)
    then show ?thesis
      using token_user_id_decode_error by blast
  qed
  show "token_user_id SECRET_KEY now (JWS h payload (HMAC a other_key h payload)) = ?rejected"
    if "other_key \<noteq> SECRET_KEY"
  proof -
    from that have "HMAC a other_key h payload \<noteq> HMAC (alg h) SECRET_KEY h payload"
      by simp
    then have "\<exists>e. jwt_decode (JWS h payload (HMAC a other_key h payload))
                 SECRET_KEY [ALGORITHM] now = Inl e"
      by (rule jwt_decode_other_signature)
    then show ?thesis
      using token_user_id_decode_error by blast
  qed
  show "token_user_id SECRET_KEY now (JWS h altered (HMAC a k h payload)) = ?rejected"
    if "altered \<noteq> payload"
  proof -
    from that have "HMAC a k h payload \<noteq> HMAC (alg h) SECRET_KEY h altered"
      by simp
    then have "\<exists>e. jwt_decode (JWS h altered (HMAC a k h payload))
                 SECRET_KEY [ALGORITHM] now = Inl e"
      by (rule jwt_decode_other_signature)
    then show ?thesis
      using token_user_id_decode_error by blast
  qed
  show "token_user_id SECRET_KEY now (NotJWS x) = ?rejected"
    by (simp add: token_user_id_decode_error)
  show "token_user_id SECRET_KEY now (JWS h payload s) = ?rejected" if "alg h \<noteq> ALGORITHM"
  proof -
    from that have "jwt_decode (JWS h payload s) SECRET_KEY [ALGORITHM] now
                      = Inl InvalidAlgorithmError"
      by simp
    then show ?thesis
      by (rule token_user_id_decode_error)
  qed
qed

theorem token_check_accepts_fresh_rejects_others_witness:
  "((1000::int) < 900 + 30 * 60
      \<and> token_user_id ''k'' 1000 (create_access_token ''k'' 900 [(''sub'', JInt 1)])
          = Inr (JInt 1))
   \<and> ((900::int) + 30 * 60 \<le> 2700
      \<and> token_user_id ''k'' 2700 (create_access_token ''k'' 900 [(''sub'', JInt 1)])
          = Inl (HTTPException 401 ''Invalid authentication credentials''))
   \<and> (dict_get [(''sub'', JInt 1), (''exp'', JInt 2000)] ''exp'' = Some (JInt 2000)
      \<and> (2000::int) \<le> 2700
      \<and> token_user_id ''k'' 2700
           (JWS \<lparr>alg = ''HS256'', jose_typ = ''JWT''\<rparr> [(''sub'', JInt 1), (''exp'', JInt 2000)]
              (HMAC ''HS256'' ''k'' \<lparr>alg = ''HS256'', jose_typ = ''JWT''\<rparr>
                 [(''sub'', JInt 1), (''exp'', JInt 2000)]))
          = Inl (HTTPException 401 ''Invalid authentication credentials''))
   \<and> (''other'' \<noteq> ''k''
      \<and> token_user_id ''k'' 1000 (create_access_token ''other'' 900 [(''sub'', JInt 1)])
          = Inl (HTTPException 401 ''Invalid authentication credentials''))
   \<and> ([(''sub'', JInt 2), (''exp'', JInt 2700)] \<noteq> [(''sub'', JInt 1), (''exp'', JInt 2700)]
      \<and> token_user_id ''k'' 1000
           (JWS \<lparr>alg = ''HS256'', jose_typ = ''JWT''\<rparr> [(''sub'', JInt 2), (''exp'', JInt 2700)]
              (HMAC ''HS256'' ''k'' \<lparr>alg = ''HS256'', jose_typ = ''JWT''\<rparr>
                 [(''sub'', JInt 1), (''exp'', JInt 2700)]))
          = Inl (HTTPException 401 ''Invalid authentication credentials''))
   \<and> (alg \<lparr>alg = ''none'', jose_typ = ''JWT''\<rparr> \<noteq> ALGORITHM
      \<and> token_user_id ''k'' 1000
           (JWS \<lparr>alg = ''none'', jose_typ = ''JWT''\<rparr> [(''sub'', JInt 1)] (OtherBytes []))
          = Inl (HTTPException 401 ''Invalid authentication credentials''))"
proof -
  have fresh: "(1000::int) < 900 + 30 * 60" by simp
  have expired: "(900::int) + 30 * 60 \<le> 2700" by simp
  have past: "dict_get [(''sub'', JInt 1), (''exp'', JInt 2000)] ''exp'' = Some (JInt 2000)
      \<and> (2000::int) \<le> 2700"
    by (simp add: dict_get_def)
  have other: "''other'' \<noteq> ''k''" by simp
  have altered: "[(''sub'', JInt 2), (''exp'', JInt 2700)] \<noteq> [(''sub'', JInt 1), (''exp'', JInt 2700)]"
    by simp
  have none: "alg \<lparr>alg = ''none'', jose_typ = ''JWT''\<rparr> \<noteq> ALGORITHM"
    by (simp add: ALGORITHM_def)
  note check = token_check_accepts_fresh_rejects_others
  from fresh check [where now = 1000 and issued = 900 and SECRET_KEY = "''k''" and uid = 1]
  have "token_user_id ''k'' 1000 (create_access_token ''k'' 900 [(''sub'', JInt 1)])
          = Inr (JInt 1)"
    by blast
  moreover from expired check [where now = 2700 and issued = 900 and SECRET_KEY = "''k''" and uid = 1]
  have "token_user_id ''k'' 2700 (create_access_token ''k'' 900 [(''sub'', JInt 1)])
          = Inl (HTTPException 401 ''Invalid authentication credentials'')"
    by blast
  moreover from past
    check [where now = 2700 and SECRET_KEY = "''k''" and expiry = 2000
             and payload = "[(''sub'', JInt 1), (''exp'', JInt 2000)]"
             and h = "\<lparr>alg = ''HS256'', jose_typ = ''JWT''\<rparr>"
             and s = "HMAC ''HS256'' ''k'' \<lparr>alg = ''HS256'', jose_typ = ''JWT''\<rparr>
                 [(''sub'', JInt 1), (''exp'', JInt 2000)]"]
  have "token_user_id ''k'' 2700
           (JWS \<lparr>alg = ''HS256'', jose_typ = ''JWT''\<rparr> [(''sub'', JInt 1), (''exp'', JInt 2000)]
              (HMAC ''HS256'' ''k'' \<lparr>alg = ''HS256'', jose_typ = ''JWT''\<rparr>
                 [(''sub'', JInt 1), (''exp'', JInt 2000)]))
          = Inl (HTTPException 401 ''Invalid authentication credentials'')"
    by blast
  moreover from other check [where now = 1000 and issued = 900 and SECRET_KEY = "''k''"
                               and uid = 1 and other_key = "''other''"]
  have "token_user_id ''k'' 1000 (create_access_token ''other'' 900 [(''sub'', JInt 1)])
          = Inl (HTTPException 401 ''Invalid authentication credentials'')"
    by blast
  moreover from altered
    check [where now = 1000 and SECRET_KEY = "''k''"
             and altered = "[(''sub'', JInt 2), (''exp'', JInt 2700)]"
             and payload = "[(''sub'', JInt 1), (''exp'', JInt 2700)]"
             and h = "\<lparr>alg = ''HS256'', jose_typ = ''JWT''\<rparr>" and a = "''HS256''" and k = "''k''"]
  have "token_user_id ''k'' 1000
           (JWS \<lparr>alg = ''HS256'', jose_typ = ''JWT''\<rparr> [(''sub'', JInt 2), (''exp'', JInt 2700)]
              (HMAC ''HS256'' ''k'' \<lparr>alg = ''HS256'', jose_typ = ''JWT''\<rparr>
                 [(''sub'', JInt 1), (''exp'', JInt 2700)]))
          = Inl (HTTPException 401 ''Invalid authentication credentials'')"
    by blast
  moreover from none
    check [where now = 1000 and SECRET_KEY = "''k''"
             and h = "\<lparr>alg = ''none'', jose_typ = ''JWT''\<rparr>"
             and payload = "[(''sub'', JInt 1)]" and s = "OtherBytes []"]
  have "token_user_id ''k'' 1000
           (JWS \<lparr>alg = ''none'', jose_typ = ''JWT''\<rparr> [(''sub'', JInt 1)] (OtherBytes []))
          = Inl (HTTPException 401 ''Invalid authentication credentials'')"
    by blast
  ultimately show ?thesis
    using fresh expired past other altered none by blast
qed

subsection \<open>Requests without a valid token\<close>

lemma token_user_id_NotJWS:
  "token_user_id key now (NotJWS x)
     = Inl (HTTPException 401 ''Invalid authentication credentials'')"
  by (simp add: token_user_id_def HTTP_401_UNAUTHORIZED_def)

lemma HTTPBearer_bearer:
  assumes "lower scheme = ''bearer''" "credentials \<noteq> NotJWS []"
  shows "HTTPBearer (Some (scheme, credentials)) = Inr credentials"
proof -
  from assms(1) have "scheme \<noteq> []" by (auto simp: lower_def)
  with assms show ?thesis by (simp add: HTTPBearer_def)
qed

lemma lower_Bearer: "lower ''Bearer'' = ''bearer''"
  by code_simp

lemma HTTPBearer_errors:
  assumes "HTTPBearer authorization = Inl e"
  shows "e = HTTPException 401 ''Not authenticated''"
  using assms
  by (auto simp: HTTPBearer_def HTTP_401_UNAUTHORIZED_def
      split: option.splits prod.splits if_splits)

lemma token_user_id_errors:
  assumes "token_user_id SECRET_KEY now token = Inl e"
  shows "e = HTTPException 401 ''Invalid authentication credentials''"
  using assms
  by (auto simp: token_user_id_def HTTP_401_UNAUTHORIZED_def
      split: sum.splits option.splits json.splits)

text \<open>
  Claim C2. A request to \<open>POST /api/movies\<close> whose \<open>Authorization\<close> header is
  absent, or holds no bearer credential, or holds a bearer token that fails the token
  check, is rejected with status 401 before the handler runs, and the database is
  unchanged: no movie row is persisted.
\<close>

theorem request_without_valid_token_rejected:
  "post_api_movies SECRET_KEY db now None movie
     = (db, Inl (HTTPException 401 ''Not authenticated''))
   \<and> (HTTPBearer authorization = Inl e \<longrightarrow>
        post_api_movies SECRET_KEY db now authorization movie = (db, Inl e)
        \<and> status_code e = 401)
   \<and> (HTTPBearer authorization = Inr credentials
        \<and> token_user_id SECRET_KEY now credentials = Inl e' \<longrightarrow>
        post_api_movies SECRET_KEY db now authorization movie = (db, Inl e')
        \<and> status_code e' = 401)"
proof (intro conjI impI)
  show "post_api_movies SECRET_KEY db now None movie
     = (db, Inl (HTTPException 401 ''Not authenticated''))"
    by (simp add: post_api_movies_def Depends_get_current_user_def HTTPBearer_def
        HTTP_401_UNAUTHORIZED_def)
  show "post_api_movies SECRET_KEY db now authorization movie = (db, Inl e)"
    if "HTTPBearer authorization = Inl e"
    using that by (simp add: post_api_movies_def Depends_get_current_user_def)
  show "status_code e = 401" if "HTTPBearer authorization = Inl e"
  proof -
    from that have "e = HTTPException 401 ''Not authenticated''"
      by (rule HTTPBearer_errors)
    then show ?thesis by simp
  qed
  show "post_api_movies SECRET_KEY db now authorization movie = (db, Inl e')"
    if "HTTPBearer authorization = Inr credentials
        \<and> token_user_id SECRET_KEY now credentials = Inl e'"
    using that
    by (simp add: post_api_movies_def Depends_get_current_user_def get_current_user_def)
  show "status_code e' = 401"
    if "HTTPBearer authorization = Inr credentials
        \<and> token_user_id SECRET_KEY now credentials = Inl e'"
  proof -
    from that have "e' = HTTPException 401 ''Invalid authentication credentials''"
      using token_user_id_errors by blast
    then show ?thesis by simp
  qed
qed

lemma HTTPBearer_Basic:
  "HTTPBearer (Some (''Basic'', NotJWS ''dXNlcjpwYXNz''))
     = Inl (HTTPException 401 ''Not authenticated'')"
proof -
  have "lower ''Basic'' = ''basic''" by code_simp
  then show ?thesis by (simp add: HTTPBearer_def HTTP_401_UNAUTHORIZED_def)
qed

lemma HTTPBearer_issued:
  "HTTPBearer (Some (''Bearer'', create_access_token ''k'' 900 [(''sub'', JInt uid)]))
     = Inr (create_access_token ''k'' 900 [(''sub'', JInt uid)])"
  by (rule HTTPBearer_bearer [OF lower_Bearer])
     (simp add: create_access_token_def jwt_encode_def Let_def)

theorem request_without_valid_token_rejected_witness:
  "(HTTPBearer (Some (''Basic'', NotJWS ''dXNlcjpwYXNz''))
        = Inl (HTTPException 401 ''Not authenticated'')
      \<and> post_api_movies ''k'' db0 1000 (Some (''Basic'', NotJWS ''dXNlcjpwYXNz'')) mirror
        = (db0, Inl (HTTPException 401 ''Not authenticated'')))
   \<and> (HTTPBearer (Some (''Bearer'', create_access_token ''k'' 900 [(''sub'', JInt 1)]))
        = Inr (create_access_token ''k'' 900 [(''sub'', JInt 1)])
      \<and> token_user_id ''k'' 2700 (create_access_token ''k'' 900 [(''sub'', JInt 1)])
        = Inl (HTTPException 401 ''Invalid authentication credentials'')
      \<and> post_api_movies ''k'' db0 2700
          (Some (''Bearer'', create_access_token ''k'' 900 [(''sub'', JInt 1)])) mirror
        = (db0, Inl (HTTPException 401 ''Invalid authentication credentials'')))"
proof -
  have expired: "token_user_id ''k'' 2700 (create_access_token ''k'' 900 [(''sub'', JInt 1)])
        = Inl (HTTPException 401 ''Invalid authentication credentials'')"
    by (simp add: token_user_id_decode_error jwt_decode_issued)
  note rejected = request_without_valid_token_rejected
  from HTTPBearer_Basic rejected [of "''k''" db0 1000 mirror "Some (''Basic'', NotJWS ''dXNlcjpwYXNz'')"]
  have "post_api_movies ''k'' db0 1000 (Some (''Basic'', NotJWS ''dXNlcjpwYXNz'')) mirror
        = (db0, Inl (HTTPException 401 ''Not authenticated''))"
    by blast
  moreover from HTTPBearer_issued [of 1] expired
    rejected [of "''k''" db0 2700 mirror
               "Some (''Bearer'', create_access_token ''k'' 900 [(''sub'', JInt 1)])"]
  have "post_api_movies ''k'' db0 2700
          (Some (''Bearer'', create_access_token ''k'' 900 [(''sub'', JInt 1)])) mirror
        = (db0, Inl (HTTPException 401 ''Invalid authentication credentials''))"
    by blast
  ultimately show ?thesis
    using HTTPBearer_Basic HTTPBearer_issued [of 1] expired by blast
qed

subsection \<open>The current user\<close>

lemma select_active_user_None:
  "(select_active_user rows uid = None) = (\<forall>u \<in> set rows. u_id u = uid \<longrightarrow> \<not> u_is_active u)"
  by (auto simp: select_active_user_def find_None_iff)

lemma token_user_id_issued:
  "token_user_id ''k'' 1000 (create_access_token ''k'' 900 [(''sub'', JInt uid)]) = Inr (JInt uid)"
  by (simp add: token_user_id_def create_access_token_def jwt_encode_def ALGORITHM_def
      ACCESS_TOKEN_EXPIRE_MINUTES_def dict_get_def Let_def)

text \<open>
  Claim C3, as amended. Let the token of a request verify to subject \<open>uid\<close>, and let
  no row of \<open>users\<close> have that id, or every such row have \<open>is_active = false\<close>. When
  \<open>uid\<close> fits a 64-bit integer, \<open>get_current_user\<close> raises 404 "User not found"; so
  the one route that depends on it, \<open>POST /api/movies\<close>, answers 404 and leaves the
  database unchanged, although the token is valid and not expired. When \<open>uid\<close> does
  not fit, the driver refuses it and the request ends with \<^verbatim>\<open>DataError\<close> instead.
\<close>

theorem inactive_or_missing_user_rejected:
  assumes verified: "token_user_id SECRET_KEY now credentials = Inr (JInt uid)"
    and no_active_row: "\<forall>u \<in> set (users db). u_id u = uid \<longrightarrow> \<not> u_is_active u"
    and bearer: "lower scheme = ''bearer''"
  shows "(in_int64 uid \<longrightarrow>
            get_current_user SECRET_KEY db now credentials
              = Inl (HTTPException 404 ''User not found'')
          \<and> post_api_movies SECRET_KEY db now (Some (scheme, credentials)) movie
              = (db, Inl (HTTPException 404 ''User not found'')))
       \<and> (\<not> in_int64 uid \<longrightarrow>
            get_current_user SECRET_KEY db now credentials
              = Inl (DataError ''value out of int64 range'')
          \<and> post_api_movies SECRET_KEY db now (Some (scheme, credentials)) movie
              = (db, Inl (DataError ''value out of int64 range'')))"
proof -
  from no_active_row have none: "select_active_user (users db) uid = None"
    by (simp add: select_active_user_None)
  from verified have "credentials \<noteq> NotJWS []"
    by (auto simp: token_user_id_NotJWS)
  with bearer have passed: "HTTPBearer (Some (scheme, credentials)) = Inr credentials"
    by (rule HTTPBearer_bearer)
  have route: "post_api_movies SECRET_KEY db now (Some (scheme, credentials)) movie = (db, Inl e)"
    if "get_current_user SECRET_KEY db now credentials = Inl e" for e
    using that passed by (simp add: post_api_movies_def Depends_get_current_user_def)
  show ?thesis
  proof (intro conjI impI)
    assume "in_int64 uid"
    with verified none
    show rejected: "get_current_user SECRET_KEY db now credentials
              = Inl (HTTPException 404 ''User not found'')"
      by (simp add: get_current_user_def HTTP_404_NOT_FOUND_def)
    then show "post_api_movies SECRET_KEY db now (Some (scheme, credentials)) movie
              = (db, Inl (HTTPException 404 ''User not found''))"
      by (rule route)
  next
    assume "\<not> in_int64 uid"
    with verified
    show refused: "get_current_user SECRET_KEY db now credentials
              = Inl (DataError ''value out of int64 range'')"
      by (simp add: get_current_user_def)
    then show "post_api_movies SECRET_KEY db now (Some (scheme, credentials)) movie
              = (db, Inl (DataError ''value out of int64 range''))"
      by (rule route)
  qed
qed

text \<open>
  Claim C3 as stated gives 404 for every subject without an active row. The source
  passes the subject to the query unchecked, and for a subject of \<open>2 ^ 63\<close> the driver
  raises \<^verbatim>\<open>DataError\<close> before any row is looked up.
\<close>

theorem subject_out_of_range_is_not_404:
  "token_user_id ''k'' 1000 (create_access_token ''k'' 900 [(''sub'', JInt (2 ^ 63))])
     = Inr (JInt (2 ^ 63))
   \<and> 2 ^ 63 \<notin> u_id ` set (users db0)
   \<and> get_current_user ''k'' db0 1000 (create_access_token ''k'' 900 [(''sub'', JInt (2 ^ 63))])
     = Inl (DataError ''value out of int64 range'')"
  by (simp add: token_user_id_issued get_current_user_def in_int64_def db0_def alice_def bob_def)

theorem inactive_or_missing_user_rejected_witness:
  "(token_user_id ''k'' 1000 (create_access_token ''k'' 900 [(''sub'', JInt 2)]) = Inr (JInt 2)
     \<and> u_id bob = 2 \<and> \<not> u_is_active bob \<and> bob \<in> set (users db0) \<and> in_int64 2
     \<and> get_current_user ''k'' db0 1000 (create_access_token ''k'' 900 [(''sub'', JInt 2)])
          = Inl (HTTPException 404 ''User not found'')
     \<and> post_api_movies ''k'' db0 1000
          (Some (''Bearer'', create_access_token ''k'' 900 [(''sub'', JInt 2)])) mirror
          = (db0, Inl (HTTPException 404 ''User not found'')))
   \<and> (token_user_id ''k'' 1000 (create_access_token ''k'' 900 [(''sub'', JInt (2 ^ 63))])
          = Inr (JInt (2 ^ 63))
     \<and> \<not> in_int64 (2 ^ 63)
     \<and> post_api_movies ''k'' db0 1000
          (Some (''Bearer'', create_access_token ''k'' 900 [(''sub'', JInt (2 ^ 63))])) mirror
          = (db0, Inl (DataError ''value out of int64 range'')))"
proof -
  have inactive: "\<forall>u \<in> set (users db0). u_id u = 2 \<longrightarrow> \<not> u_is_active u"
    by (simp add: db0_def alice_def bob_def)
  have missing: "\<forall>u \<in> set (users db0). u_id u = 2 ^ 63 \<longrightarrow> \<not> u_is_active u"
    by (simp add: db0_def alice_def bob_def)
  have stored: "u_id bob = 2 \<and> \<not> u_is_active bob \<and> bob \<in> set (users db0)"
    by (simp add: db0_def bob_def)
  have range: "in_int64 2 \<and> \<not> in_int64 (2 ^ 63)"
    by (simp add: in_int64_def)
  from inactive_or_missing_user_rejected
         [OF token_user_id_issued inactive lower_Bearer, of mirror]
       inactive_or_missing_user_rejected
         [OF token_user_id_issued missing lower_Bearer, of mirror]
  show ?thesis using token_user_id_issued stored range by blast
qed

subsection \<open>Passwords\<close>

lemma split_on_no_sep: "c \<notin> set s \<Longrightarrow> split_on c s = [s]"
  by (induction s) auto

lemma split_on_sep: "c \<notin> set a \<Longrightarrow> split_on c (a @ c # b) = a # split_on c b"
  by (induction a) auto

lemma dollar_not_b64: "CHR ''$'' \<notin> set b64_alphabet"
  by (simp add: b64_alphabet_def)



lemma no_dollar_in_salt: "valid_salt s \<Longrightarrow> CHR ''$'' \<notin> set s"
  using dollar_not_b64 by (auto simp: valid_salt_def list_all_iff)

lemma read_salt_without_dollar:
  assumes "CHR ''$'' \<notin> set h"
  shows "read_salt h = None"
proof -
  from assms have "split_on CHR ''$'' h = [h]"
    by (rule split_on_no_sep)
  then show ?thesis
    by (cases "h = []") (simp_all add: read_salt_def)
qed

lemma parse_u32_12: "parse_u32 ''12'' = Some 12"
  by code_simp

lemma two_digits_12: "two_digits 12 = ''12''"
  by code_simp

lemma read_salt_gensalt:
  assumes "valid_salt random" "CHR ''$'' \<notin> set d"
  shows "read_salt (gensalt random @ d) = Some (''2b'', 12, random)"
proof -
  from assms have clean: "CHR ''$'' \<notin> set (random @ d)"
    by (simp add: no_dollar_in_salt)
  have "gensalt random @ d = [] @ CHR ''$'' # (''2b'' @ CHR ''$'' # (''12'' @ CHR ''$'' # (random @ d)))"
    by (simp add: gensalt_def)
  then have "split_on CHR ''$'' (gensalt random @ d) = [[], ''2b'', ''12'', random @ d]"
    using clean by (simp only: split_on_sep split_on_no_sep) (simp add: split_on_sep split_on_no_sep)
  moreover from assms(1) have "length random = 22" "random \<noteq> []"
    by (auto simp: valid_salt_def)
  ultimately show ?thesis
    using assms(1) by (simp add: read_salt_def parse_u32_12)
qed



lemma bcrypt_key_starts:
  assumes "length p \<le> 72"
  shows "\<exists>rest. bcrypt_key p = take 72 (p @ [CHR 0x00]) @ rest"
proof -
  define key where "key = take 72 (p @ [CHR 0x00])"
  define more where "more = concat (replicate 71 key)"
  have "replicate 72 key = key # replicate 71 key"
    by (simp add: numeral_eq_Suc)
  then have cycle: "concat (replicate 72 key) = key @ more"
    by (simp add: more_def)
  have "length key \<le> 72"
    by (simp add: key_def)
  then have "take 72 (key @ more) = key @ take (72 - length key) more"
    by simp
  with cycle have "bcrypt_key p = key @ take (72 - length key) more"
    by (simp add: bcrypt_key_def Let_def key_def)
  then show ?thesis
    by (auto simp: key_def)
qed








lemma valid_example_salt: "valid_salt ''0123456789abcdefghijkO''"
  by code_simp





text \<open>
  Claim C5, as amended. \<open>verify_password\<close> catches nothing. For a plaintext of at most
  72 bytes it raises \<^verbatim>\<open>ValueError("Invalid salt")\<close> exactly when bcrypt cannot read a
  version, a cost and a salt from the hash string, as is the case for every string
  without a dollar sign; for every other hash string it returns a boolean, which is
  false for a bare salt.
\<close>

theorem verify_password_raises_on_unreadable_hash:
  assumes short: "length p \<le> 72"
  shows "(read_salt h = None \<longrightarrow>
            verify_password lib p h = Inl (ValueError ''Invalid salt''))
       \<and> (CHR ''$'' \<notin> set h \<longrightarrow>
            verify_password lib p h = Inl (ValueError ''Invalid salt''))
       \<and> (read_salt h \<noteq> None \<longrightarrow> (\<exists>b. verify_password lib p h = Inr b))
       \<and> (valid_salt random \<and> bcrypt_digest lib 12 random (bcrypt_key p) \<noteq> [] \<longrightarrow>
            verify_password lib p (gensalt random) = Inr False)"
proof (intro conjI impI)
  assume "read_salt h = None"
  with short show "verify_password lib p h = Inl (ValueError ''Invalid salt'')"
    by (simp add: verify_password_def checkpw_def hashpw_def)
next
  assume "CHR ''$'' \<notin> set h"
  then have "read_salt h = None"
    by (rule read_salt_without_dollar)
  with short show "verify_password lib p h = Inl (ValueError ''Invalid salt'')"
    by (simp add: verify_password_def checkpw_def hashpw_def)
next
  assume "read_salt h \<noteq> None"
  then obtain version cost raw_salt where "read_salt h = Some (version, cost, raw_salt)"
    by auto
  with short show "\<exists>b. verify_password lib p h = Inr b"
    by (simp add: verify_password_def checkpw_def hashpw_def)
next
  assume bare: "valid_salt random \<and> bcrypt_digest lib 12 random (bcrypt_key p) \<noteq> []"
  then have "read_salt (gensalt random @ []) = Some (''2b'', 12, random)"
    by (intro read_salt_gensalt) simp_all
  with short bare show "verify_password lib p (gensalt random) = Inr False"
    by (simp add: verify_password_def checkpw_def hashpw_def two_digits_12 gensalt_def)
qed

text \<open>
  Claim C5 as stated says that a malformed hash gives false without an exception. For
  a string that is no bcrypt hash, \<open>verify_password\<close> raises \<^verbatim>\<open>ValueError\<close>, whatever
  the release of the library and its digest computation are.
\<close>

theorem verify_password_malformed_hash_raises:
  "\<forall>lib. verify_password lib ''secret1'' ''not-a-bcrypt-hash''
           = Inl (ValueError ''Invalid salt'')"
proof
  fix lib
  have "read_salt ''not-a-bcrypt-hash'' = None"
    by (rule read_salt_without_dollar) simp
  then show "verify_password lib ''secret1'' ''not-a-bcrypt-hash''
           = Inl (ValueError ''Invalid salt'')"
    by (simp add: verify_password_def checkpw_def hashpw_def)
qed

lemma alice_hash_readable:
  "read_salt (u_password_hash alice) = Some (''2b'', 12, ''0123456789abcdefghijkO'')"
proof -
  have "u_password_hash alice
          = gensalt ''0123456789abcdefghijkO'' @ ''Q/dBq6Yx7v6nbQzrM1TCcZ3JpKtYafW''"
    by (simp add: alice_def gensalt_def)
  moreover have "read_salt (gensalt ''0123456789abcdefghijkO'' @ ''Q/dBq6Yx7v6nbQzrM1TCcZ3JpKtYafW'')
          = Some (''2b'', 12, ''0123456789abcdefghijkO'')"
    by (rule read_salt_gensalt [OF valid_example_salt]) simp
  ultimately show ?thesis by simp
qed

lemma digest_not_empty:
  "bcrypt_digest bcrypt_5 12 ''0123456789abcdefghijkO'' (bcrypt_key ''secret1'') \<noteq> []"
proof -
  obtain rest where "bcrypt_key ''secret1'' = take 72 (''secret1'' @ [CHR 0x00]) @ rest"
    using bcrypt_key_starts [of "''secret1''"] by auto
  then show ?thesis
    by (simp add: bcrypt_digest_def bcrypt_5_def two_digits_per_byte_def)
qed

theorem verify_password_raises_on_unreadable_hash_witness:
  "length ''secret1'' \<le> 72
   \<and> (read_salt ''not-a-bcrypt-hash'' = None \<and> CHR ''$'' \<notin> set ''not-a-bcrypt-hash''
      \<and> verify_password bcrypt_5 ''secret1'' ''not-a-bcrypt-hash''
          = Inl (ValueError ''Invalid salt''))
   \<and> (read_salt (u_password_hash alice) \<noteq> None
      \<and> (\<exists>b. verify_password bcrypt_5 ''secret1'' (u_password_hash alice) = Inr b))
   \<and> (valid_salt ''0123456789abcdefghijkO''
      \<and> bcrypt_digest bcrypt_5 12 ''0123456789abcdefghijkO'' (bcrypt_key ''secret1'') \<noteq> []
      \<and> verify_password bcrypt_5 ''secret1'' (gensalt ''0123456789abcdefghijkO'') = Inr False)"
proof -
  have short: "length ''secret1'' \<le> 72" by simp
  have plain: "CHR ''$'' \<notin> set ''not-a-bcrypt-hash''" by simp
  then have unreadable: "read_salt ''not-a-bcrypt-hash'' = None"
    by (rule read_salt_without_dollar)
  have readable: "read_salt (u_password_hash alice) \<noteq> None"
    by (simp add: alice_hash_readable)
  note raises = verify_password_raises_on_unreadable_hash [OF short]
  from plain raises [of "''not-a-bcrypt-hash''" bcrypt_5]
  have "verify_password bcrypt_5 ''secret1'' ''not-a-bcrypt-hash''
          = Inl (ValueError ''Invalid salt'')"
    by blast
  moreover from readable raises [of "u_password_hash alice" bcrypt_5]
  have "\<exists>b. verify_password bcrypt_5 ''secret1'' (u_password_hash alice) = Inr b"
    by blast
  moreover from valid_example_salt digest_not_empty
    raises [of _ bcrypt_5 "''0123456789abcdefghijkO''"]
  have "verify_password bcrypt_5 ''secret1'' (gensalt ''0123456789abcdefghijkO'') = Inr False"
    by blast
  ultimately show ?thesis
    using short plain unreadable readable valid_example_salt digest_not_empty by blast
qed

subsection \<open>Registration\<close>

lemma select_id_by_email_Some:
  assumes "\<exists>u \<in> set rows. u_email u = e"
  shows "\<exists>i. select_id_by_email rows e = Some i"
proof -
  from assms have "find (\<lambda>u. u_email u = e) rows \<noteq> None"
    by (auto simp: find_None_iff)
  then show ?thesis by (auto simp: select_id_by_email_def)
qed

text \<open>
  Claim C6. When the email of a registration request equals the email of a stored user,
  \<open>register\<close> raises HTTP 400 "Email already registered", whatever the password and
  the username are, and the database is unchanged: no user row is inserted.
\<close>

theorem register_existing_email_conflict:
  assumes "\<exists>u \<in> set (users db). u_email u = email user"
  shows "register SECRET_KEY lib db now random user
           = (db, Inl (HTTPException 400 ''Email already registered''))
       \<and> users (fst (register SECRET_KEY lib db now random user)) = users db"
proof -
  from assms obtain i where "select_id_by_email (users db) (email user) = Some i"
    using select_id_by_email_Some by blast
  then have "register SECRET_KEY lib db now random user
           = (db, Inl (HTTPException 400 ''Email already registered''))"
    by (simp add: register_def HTTP_400_BAD_REQUEST_def)
  then show ?thesis by simp
qed

theorem register_existing_email_conflict_witness:
  "(\<exists>u \<in> set (users db0). u_email u = email \<lparr>email = ''a@x.com'', username = ''mallory'', password = ''other-password''\<rparr>)
   \<and> register ''k'' \<lparr>raises_on_long = True, eks = two_digits_per_byte\<rparr> db0 1000
        ''0123456789abcdefghijkO''
        \<lparr>email = ''a@x.com'', username = ''mallory'', password = ''other-password''\<rparr>
       = (db0, Inl (HTTPException 400 ''Email already registered''))"
proof -
  let ?user = "\<lparr>email = ''a@x.com'', username = ''mallory'', password = ''other-password''\<rparr>"
  have stored: "\<exists>u \<in> set (users db0). u_email u = email ?user"
    by (simp add: db0_def alice_def)
  from register_existing_email_conflict [OF stored, of "''k''" "\<lparr>raises_on_long = True, eks = two_digits_per_byte\<rparr>" 1000
          "''0123456789abcdefghijkO''"]
  show ?thesis using stored by blast
qed

subsection \<open>Listing movies\<close>

lemma sorted_desc_order_by:
  "sorted_wrt (\<lambda>a b. m_created_at b \<le> m_created_at a) (order_by_created_at_desc rows)"
proof -
  have "sorted (map (\<lambda>m. - m_created_at m) (sort_key (\<lambda>m. - m_created_at m) rows))"
    by (rule sorted_sort_key)
  then have "sorted_wrt (\<lambda>a b. - m_created_at a \<le> - m_created_at b)
               (sort_key (\<lambda>m. - m_created_at m) rows)"
    by (simp add: sorted_map)
  then show ?thesis by (simp add: order_by_created_at_desc_def)
qed

lemma mset_order_by: "mset (order_by_created_at_desc rows) = mset rows"
  by (simp add: order_by_created_at_desc_def)

lemma get_movies_accepts:
  "(\<exists>rows. get_movies db skip limit g = Inr rows)
     = (0 \<le> skip \<and> skip < 2 ^ 63 \<and> 0 \<le> limit \<and> limit < 2 ^ 63)"
  by (auto simp: get_movies_def in_int64_def)

text \<open>
  Claim C8, as amended. \<open>get_movies\<close> checks neither \<open>skip\<close> nor \<open>limit\<close> itself: the
  call succeeds exactly when both are at least 0 (a \<open>limit\<close> of 0 included) and fit a
  64-bit integer. When it succeeds, the result is a window of the rows whose genre
  equals the filter (of all rows when no genre is given) in an order of descending
  creation time: the first \<open>skip\<close> rows are left out and at most \<open>limit\<close> rows follow.
\<close>

theorem get_movies_filter_order_window:
  "((\<exists>rows. get_movies db skip limit g = Inr rows)
      = (0 \<le> skip \<and> skip < 2 ^ 63 \<and> 0 \<le> limit \<and> limit < 2 ^ 63))
   \<and> (\<forall>rows. get_movies db skip limit g = Inr rows \<longrightarrow>
        (\<exists>ordered.
           mset ordered =
             mset (filter (\<lambda>m. case g of None \<Rightarrow> True | Some x \<Rightarrow> m_genre m = x) (movies db))
           \<and> sorted_wrt (\<lambda>a b. m_created_at b \<le> m_created_at a) ordered
           \<and> rows = take (nat limit) (drop (nat skip) ordered)
           \<and> int (length rows) \<le> limit))"
proof (intro conjI allI impI)
  show "(\<exists>rows. get_movies db skip limit g = Inr rows)
      = (0 \<le> skip \<and> skip < 2 ^ 63 \<and> 0 \<le> limit \<and> limit < 2 ^ 63)"
    by (rule get_movies_accepts)
next
  fix rows
  assume run: "get_movies db skip limit g = Inr rows"
  let ?selected = "filter (\<lambda>m. case g of None \<Rightarrow> True | Some x \<Rightarrow> m_genre m = x) (movies db)"
  let ?ordered = "order_by_created_at_desc ?selected"
  have same: "filter (where_genre g) (movies db) = ?selected"
    by (rule filter_cong [OF refl]) (simp add: where_genre_def)
  from run have "0 \<le> limit"
    using get_movies_accepts [of db skip limit g] by blast
  from run have rows: "rows = take (nat limit) (drop (nat skip) ?ordered)"
    by (simp add: get_movies_def same split: if_splits)
  then have "length rows \<le> nat limit" by simp
  with \<open>0 \<le> limit\<close> have "int (length rows) \<le> limit" by linarith
  with rows show "\<exists>ordered.
           mset ordered = mset ?selected
           \<and> sorted_wrt (\<lambda>a b. m_created_at b \<le> m_created_at a) ordered
           \<and> rows = take (nat limit) (drop (nat skip) ordered)
           \<and> int (length rows) \<le> limit"
    using mset_order_by [of ?selected] sorted_desc_order_by [of ?selected] by blast
qed

lemma get_movies_drama:
  "get_movies db0 1 5 (Some ''Drama'') = Inr [solaris]"
  by (simp add: get_movies_def in_int64_def db0_def where_genre_def order_by_created_at_desc_def
        solaris_def airplane_def stalker_def)

text \<open>
  Claim C8 as stated says that only a \<open>limit\<close> above 0 is accepted; the source has no
  such check, and a \<open>limit\<close> of 0 is answered with the empty list.
\<close>

theorem get_movies_limit_zero_accepted:
  "get_movies db0 0 0 None = Inr []"
  by (simp add: get_movies_def in_int64_def)

theorem get_movies_filter_order_window_witness:
  "get_movies db0 1 5 (Some ''Drama'') = Inr [solaris]
   \<and> (\<exists>ordered.
           mset ordered =
             mset (filter (\<lambda>m. case Some ''Drama'' of None \<Rightarrow> True | Some x \<Rightarrow> m_genre m = x) (movies db0))
           \<and> sorted_wrt (\<lambda>a b. m_created_at b \<le> m_created_at a) ordered
           \<and> [solaris] = take (nat 5) (drop (nat 1) ordered)
           \<and> int (length [solaris]) \<le> 5)"
  using get_movies_filter_order_window [of db0 1 5 "Some ''Drama''"] get_movies_drama
  by blast

subsection \<open>Fetching one movie\<close>

lemma select_movie_by_id_None:
  "(select_movie_by_id rows movie_id = None) = (\<forall>m \<in> set rows. m_id m \<noteq> movie_id)"
  by (auto simp: select_movie_by_id_def find_None_iff)

lemma select_movie_by_id_Some:
  assumes "select_movie_by_id rows movie_id = Some movie"
  shows "movie \<in> set rows \<and> m_id movie = movie_id"
proof -
  from assms obtain i where "i < length rows" "m_id (rows ! i) = movie_id" "movie = rows ! i"
    by (auto simp: select_movie_by_id_def find_Some_iff)
  then show ?thesis by auto
qed

lemma find_map_preserved:
  assumes "\<And>x. P (f x) = P x"
  shows "find P (map f xs) = map_option f (find P xs)"
  using assms by (induction xs) auto

lemma select_after_update:
  "select_movie_by_id (update_views_count rows movie_id) movie_id =
     map_option (\<lambda>m. m\<lparr>m_views_count := m_views_count m + 1\<rparr>) (select_movie_by_id rows movie_id)"
proof -
  let ?f = "\<lambda>m. if m_id m = movie_id then m\<lparr>m_views_count := m_views_count m + 1\<rparr> else m"
  have "find (\<lambda>m. m_id m = movie_id) (map ?f rows) = map_option ?f (find (\<lambda>m. m_id m = movie_id) rows)"
    by (rule find_map_preserved) simp
  moreover have "map_option ?f (find (\<lambda>m. m_id m = movie_id) rows)
      = map_option (\<lambda>m. m\<lparr>m_views_count := m_views_count m + 1\<rparr>) (find (\<lambda>m. m_id m = movie_id) rows)"
  proof (cases "find (\<lambda>m. m_id m = movie_id) rows")
    case None
    then show ?thesis by simp
  next
    case (Some m)
    then have "m_id m = movie_id" by (auto simp: find_Some_iff)
    with Some show ?thesis by simp
  qed
  ultimately show ?thesis
    by (simp add: select_movie_by_id_def update_views_count_def)
qed

text \<open>
  Claim C7, as amended. For every movie id that fits a 64-bit integer, \<open>get_movie\<close>
  raises 404 when no row of \<open>movies\<close> has that id, and then the database, all view
  counters included, is unchanged. When a row has the id, \<open>get_movie\<close> returns a
  stored row with that id, and afterwards every row with that id has a \<open>views_count\<close>
  greater by exactly 1 while every other row, and the users, are as before. An id that
  does not fit is refused by the driver: \<^verbatim>\<open>DataError\<close>, and nothing is written.
\<close>

theorem get_movie_404_or_one_more_view:
  "(\<not> in_int64 movie_id \<longrightarrow>
      get_movie db movie_id = (db, Inl (DataError ''value out of int64 range'')))
   \<and> (in_int64 movie_id \<and> movie_id \<notin> m_id ` set (movies db) \<longrightarrow>
      get_movie db movie_id = (db, Inl (HTTPException 404 ''Movie not found'')))
   \<and> (in_int64 movie_id \<and> movie_id \<in> m_id ` set (movies db) \<longrightarrow>
      (\<exists>movie db'. get_movie db movie_id = (db', Inr movie)
         \<and> movie \<in> set (movies db) \<and> m_id movie = movie_id
         \<and> users db' = users db
         \<and> length (movies db') = length (movies db)
         \<and> (\<forall>i < length (movies db).
              movies db' ! i =
                (if m_id (movies db ! i) = movie_id
                 then (movies db ! i)\<lparr>m_views_count := m_views_count (movies db ! i) + 1\<rparr>
                 else movies db ! i))))"
proof (intro conjI impI)
  assume "\<not> in_int64 movie_id"
  then show "get_movie db movie_id = (db, Inl (DataError ''value out of int64 range''))"
    by (simp add: get_movie_def)
next
  assume "in_int64 movie_id \<and> movie_id \<notin> m_id ` set (movies db)"
  then have "in_int64 movie_id" and "select_movie_by_id (movies db) movie_id = None"
    by (auto simp: select_movie_by_id_None)
  then show "get_movie db movie_id = (db, Inl (HTTPException 404 ''Movie not found''))"
    by (simp add: get_movie_def HTTP_404_NOT_FOUND_def)
next
  assume present: "in_int64 movie_id \<and> movie_id \<in> m_id ` set (movies db)"
  then have "select_movie_by_id (movies db) movie_id \<noteq> None"
    by (auto simp: select_movie_by_id_None)
  then obtain movie where found: "select_movie_by_id (movies db) movie_id = Some movie"
    by auto
  let ?db' = "db\<lparr>movies := update_views_count (movies db) movie_id\<rparr>"
  have "get_movie db movie_id = (?db', Inr movie)"
    using found present by (simp add: get_movie_def)
  moreover have "movie \<in> set (movies db) \<and> m_id movie = movie_id"
    using found by (rule select_movie_by_id_Some)
  moreover have "users ?db' = users db" by simp
  moreover have "length (movies ?db') = length (movies db)"
    by (simp add: update_views_count_def)
  moreover have "\<forall>i < length (movies db).
              movies ?db' ! i =
                (if m_id (movies db ! i) = movie_id
                 then (movies db ! i)\<lparr>m_views_count := m_views_count (movies db ! i) + 1\<rparr>
                 else movies db ! i)"
    by (simp add: update_views_count_def)
  ultimately show "\<exists>movie db'. get_movie db movie_id = (db', Inr movie)
         \<and> movie \<in> set (movies db) \<and> m_id movie = movie_id
         \<and> users db' = users db
         \<and> length (movies db') = length (movies db)
         \<and> (\<forall>i < length (movies db).
              movies db' ! i =
                (if m_id (movies db ! i) = movie_id
                 then (movies db ! i)\<lparr>m_views_count := m_views_count (movies db ! i) + 1\<rparr>
                 else movies db ! i))"
    by blast
qed

text \<open>
  Claim C7 as stated gives 404 for every id without a row. The source passes the path
  parameter to the query unchecked, and for an id of \<open>2 ^ 63\<close> the driver raises
  \<^verbatim>\<open>DataError\<close> instead.
\<close>

theorem movie_id_out_of_range_is_not_404:
  "2 ^ 63 \<notin> m_id ` set (movies db0)
   \<and> get_movie db0 (2 ^ 63) = (db0, Inl (DataError ''value out of int64 range''))"
  by (simp add: get_movie_def in_int64_def db0_def solaris_def airplane_def stalker_def)

text \<open>
  Claim C10. The record a successful \<open>get_movie\<close> returns is the row as it was read
  before the update: its \<open>views_count\<close> is the old one, and the row stored under that id
  after the call is the returned record with \<open>views_count\<close> one higher.
\<close>

theorem get_movie_returns_count_before_update:
  assumes "get_movie db movie_id = (db', Inr movie)"
  shows "select_movie_by_id (movies db) movie_id = Some movie
       \<and> select_movie_by_id (movies db') movie_id
            = Some (movie\<lparr>m_views_count := m_views_count movie + 1\<rparr>)"
proof -
  from assms have found: "select_movie_by_id (movies db) movie_id = Some movie"
    and db': "db' = db\<lparr>movies := update_views_count (movies db) movie_id\<rparr>"
    by (auto simp: get_movie_def split: if_splits option.splits)
  have "select_movie_by_id (movies db') movie_id
          = Some (movie\<lparr>m_views_count := m_views_count movie + 1\<rparr>)"
    using found by (simp add: db' select_after_update)
  with found show ?thesis by simp
qed

theorem get_movie_404_or_one_more_view_witness:
  "(\<not> in_int64 (2 ^ 63)
      \<and> get_movie db0 (2 ^ 63) = (db0, Inl (DataError ''value out of int64 range'')))
   \<and> (in_int64 9 \<and> 9 \<notin> m_id ` set (movies db0)
      \<and> get_movie db0 9 = (db0, Inl (HTTPException 404 ''Movie not found'')))
   \<and> (in_int64 1 \<and> 1 \<in> m_id ` set (movies db0)
      \<and> (\<exists>movie db'. get_movie db0 1 = (db', Inr movie)
         \<and> movie \<in> set (movies db0) \<and> m_id movie = 1
         \<and> users db' = users db0
         \<and> length (movies db') = length (movies db0)))"
proof -
  have refused: "\<not> in_int64 (2 ^ 63)"
    by (simp add: in_int64_def)
  have absent: "in_int64 9 \<and> 9 \<notin> m_id ` set (movies db0)"
    by (simp add: in_int64_def db0_def solaris_def airplane_def stalker_def)
  have present: "in_int64 1 \<and> 1 \<in> m_id ` set (movies db0)"
    by (simp add: in_int64_def db0_def solaris_def airplane_def stalker_def)
  from refused get_movie_404_or_one_more_view [of "2 ^ 63" db0]
  have "get_movie db0 (2 ^ 63) = (db0, Inl (DataError ''value out of int64 range''))"
    by blast
  moreover from absent get_movie_404_or_one_more_view [of 9 db0]
  have "get_movie db0 9 = (db0, Inl (HTTPException 404 ''Movie not found''))"
    by blast
  moreover from present get_movie_404_or_one_more_view [of 1 db0]
  have "\<exists>movie db'. get_movie db0 1 = (db', Inr movie)
         \<and> movie \<in> set (movies db0) \<and> m_id movie = 1
         \<and> users db' = users db0
         \<and> length (movies db') = length (movies db0)"
    by blast
  ultimately show ?thesis using refused absent present by blast
qed

theorem get_movie_returns_count_before_update_witness:
  "get_movie db0 1 = (db0\<lparr>movies := update_views_count (movies db0) 1\<rparr>, Inr solaris)
   \<and> m_views_count solaris = 3
   \<and> select_movie_by_id (update_views_count (movies db0) 1) 1
        = Some (solaris\<lparr>m_views_count := 4\<rparr>)"
proof -
  have run: "get_movie db0 1 = (db0\<lparr>movies := update_views_count (movies db0) 1\<rparr>, Inr solaris)"
    by (simp add: get_movie_def in_int64_def select_movie_by_id_def db0_def solaris_def)
  from get_movie_returns_count_before_update [OF run]
  have "select_movie_by_id (movies (db0\<lparr>movies := update_views_count (movies db0) 1\<rparr>)) 1
          = Some (solaris\<lparr>m_views_count := m_views_count solaris + 1\<rparr>)"
    by blast
  then show ?thesis using run by (simp add: solaris_def)
qed

subsection \<open>Creating a movie\<close>

text \<open>
  Claim C9, as amended. For every create-movie request that passes authentication and
  has valid fields, with a duration that fits a 64-bit integer, exactly one row is
  appended to \<open>movies\<close>: its \<open>user_id\<close> is the id of the authenticated user, its
  \<open>created_at\<close> is the current time and its other columns are the fields of the
  request. A valid duration that does not fit is refused by the driver, and nothing is
  inserted. What the framework sends under the response model Movie does not depend on
  a row's \<open>user_id\<close>: Movie has no such field.
\<close>

theorem create_movie_inserts_row_of_creator:
  assumes authorized: "Depends_get_current_user SECRET_KEY db now authorization = Inr current_user"
    and valid: "valid_MovieCreate movie"
  shows "(in_int64 (duration movie) \<longrightarrow>
           (\<exists>row. movies (fst (post_api_movies SECRET_KEY db now authorization movie))
                     = movies db @ [row]
              \<and> users (fst (post_api_movies SECRET_KEY db now authorization movie)) = users db
              \<and> m_user_id row = u_id current_user
              \<and> m_created_at row = now
              \<and> m_title row = title movie \<and> m_genre row = genre movie
              \<and> m_duration row = duration movie \<and> m_rating row = rating movie
              \<and> m_description row = description movie
              \<and> m_poster_url row = poster_url movie \<and> m_is_new row = is_new movie))
       \<and> (\<not> in_int64 (duration movie) \<longrightarrow>
           post_api_movies SECRET_KEY db now authorization movie
             = (db, Inl (DataError ''value out of int64 range'')))
       \<and> (\<forall>r owner. response_model_Movie (Some (r\<lparr>m_user_id := owner\<rparr>))
                        = response_model_Movie (Some r))"
proof (intro conjI impI)
  assume fits: "in_int64 (duration movie)"
  define row where "row = \<lparr>m_id = next_movie_id db, m_title = title movie,
                        m_genre = genre movie, m_duration = duration movie,
                        m_rating = rating movie, m_description = description movie,
                        m_poster_url = poster_url movie, m_is_new = is_new movie,
                        m_created_at = now, m_views_count = 0,
                        m_user_id = u_id current_user\<rparr>"
  from fits have handler: "create_movie db now movie current_user
      = (db\<lparr>movies := movies db @ [row], next_movie_id := next_movie_id db + 1\<rparr>, Inr None)"
    by (simp add: create_movie_def row_def Let_def)
  from authorized valid handler
  have route: "fst (post_api_movies SECRET_KEY db now authorization movie)
      = db\<lparr>movies := movies db @ [row], next_movie_id := next_movie_id db + 1\<rparr>"
    by (simp add: post_api_movies_def)
  have "m_user_id row = u_id current_user \<and> m_created_at row = now
         \<and> m_title row = title movie \<and> m_genre row = genre movie
         \<and> m_duration row = duration movie \<and> m_rating row = rating movie
         \<and> m_description row = description movie
         \<and> m_poster_url row = poster_url movie \<and> m_is_new row = is_new movie"
    by (simp add: row_def)
  with route show "\<exists>row. movies (fst (post_api_movies SECRET_KEY db now authorization movie))
                     = movies db @ [row]
              \<and> users (fst (post_api_movies SECRET_KEY db now authorization movie)) = users db
              \<and> m_user_id row = u_id current_user
              \<and> m_created_at row = now
              \<and> m_title row = title movie \<and> m_genre row = genre movie
              \<and> m_duration row = duration movie \<and> m_rating row = rating movie
              \<and> m_description row = description movie
              \<and> m_poster_url row = poster_url movie \<and> m_is_new row = is_new movie"
    by (intro exI [of _ row]) simp
next
  assume "\<not> in_int64 (duration movie)"
  then have "create_movie db now movie current_user
               = (db, Inl (DataError ''value out of int64 range''))"
    by (simp add: create_movie_def)
  with authorized valid
  show "post_api_movies SECRET_KEY db now authorization movie
          = (db, Inl (DataError ''value out of int64 range''))"
    by (simp add: post_api_movies_def)
next
  show "\<forall>r owner. response_model_Movie (Some (r\<lparr>m_user_id := owner\<rparr>))
                        = response_model_Movie (Some r)"
    by (simp add: response_model_Movie_def)
qed

lemma alice_authorized:
  "Depends_get_current_user ''k'' db0 1000
     (Some (''Bearer'', create_access_token ''k'' 900 [(''sub'', JInt 1)])) = Inr alice"
  by (simp add: Depends_get_current_user_def HTTPBearer_issued get_current_user_def
      token_user_id_issued in_int64_def select_active_user_def db0_def alice_def)

lemma python_len_ascii:
  "python_len ''Mirror'' = 6 \<and> python_len ''Drama'' = 5 \<and> python_len ''Memories'' = 8"
  by code_simp

lemma valid_mirror: "valid_MovieCreate mirror"
  using python_len_ascii by (simp add: valid_MovieCreate_def mirror_def)

lemma valid_long_mirror: "valid_MovieCreate (mirror\<lparr>duration := 2 ^ 63\<rparr>)"
  using python_len_ascii by (simp add: valid_MovieCreate_def mirror_def)

lemma alice_inserts_mirror:
  "fst (post_api_movies ''k'' db0 1000
          (Some (''Bearer'', create_access_token ''k'' 900 [(''sub'', JInt 1)])) mirror)
     = db0\<lparr>movies := movies db0 @ [mirror_row], next_movie_id := 5\<rparr>"
  using alice_authorized valid_mirror
  by (simp add: post_api_movies_def create_movie_def in_int64_def Let_def mirror_row_def)
     (simp add: mirror_def alice_def db0_def)

text \<open>
  Claim C9 as stated says that every valid request inserts a row and that the record
  sent to the client contains the creator's \<open>user_id\<close>. A duration of \<open>2 ^ 63\<close> is
  valid (\<^verbatim>\<open>Field(..., gt=0)\<close> has no upper bound), and the driver refuses it: nothing
  is inserted. And the response model Movie has no field for the owner: the row that a
  request of \<open>alice\<close> inserts and the same row with another owner are sent as the same
  Movie.
\<close>

theorem create_movie_response_has_no_owner:
  "valid_MovieCreate (mirror\<lparr>duration := 2 ^ 63\<rparr>)
   \<and> post_api_movies ''k'' db0 1000
        (Some (''Bearer'', create_access_token ''k'' 900 [(''sub'', JInt 1)]))
        (mirror\<lparr>duration := 2 ^ 63\<rparr>)
       = (db0, Inl (DataError ''value out of int64 range''))
   \<and> movies (fst (post_api_movies ''k'' db0 1000
        (Some (''Bearer'', create_access_token ''k'' 900 [(''sub'', JInt 1)])) mirror))
       = movies db0 @ [mirror_row]
   \<and> m_user_id mirror_row = 1
   \<and> response_model_Movie (Some mirror_row)
       = response_model_Movie (Some (mirror_row\<lparr>m_user_id := 2\<rparr>))"
proof -
  have "post_api_movies ''k'' db0 1000
        (Some (''Bearer'', create_access_token ''k'' 900 [(''sub'', JInt 1)]))
        (mirror\<lparr>duration := 2 ^ 63\<rparr>)
       = (db0, Inl (DataError ''value out of int64 range''))"
    using alice_authorized valid_long_mirror
    by (simp add: post_api_movies_def create_movie_def in_int64_def)
  moreover have "response_model_Movie (Some mirror_row)
       = response_model_Movie (Some (mirror_row\<lparr>m_user_id := 2\<rparr>))"
    by (simp add: response_model_Movie_def)
  moreover have "m_user_id mirror_row = 1"
    by (simp add: mirror_row_def)
  ultimately show ?thesis
    using valid_long_mirror alice_inserts_mirror by simp
qed

theorem create_movie_inserts_row_of_creator_witness:
  "Depends_get_current_user ''k'' db0 1000
     (Some (''Bearer'', create_access_token ''k'' 900 [(''sub'', JInt 1)])) = Inr alice
   \<and> (valid_MovieCreate mirror \<and> in_int64 (duration mirror)
      \<and> (\<exists>row. movies (fst (post_api_movies ''k'' db0 1000
             (Some (''Bearer'', create_access_token ''k'' 900 [(''sub'', JInt 1)])) mirror))
             = movies db0 @ [row]
         \<and> m_user_id row = 1
         \<and> m_created_at row = 1000
         \<and> m_title row = ''Mirror''))
   \<and> (valid_MovieCreate (mirror\<lparr>duration := 2 ^ 63\<rparr>)
      \<and> \<not> in_int64 (duration (mirror\<lparr>duration := 2 ^ 63\<rparr>))
      \<and> post_api_movies ''k'' db0 1000
           (Some (''Bearer'', create_access_token ''k'' 900 [(''sub'', JInt 1)]))
           (mirror\<lparr>duration := 2 ^ 63\<rparr>)
          = (db0, Inl (DataError ''value out of int64 range'')))"
proof -
  have fits: "in_int64 (duration mirror)"
    by (simp add: in_int64_def mirror_def)
  have too_long: "\<not> in_int64 (duration (mirror\<lparr>duration := 2 ^ 63\<rparr>))"
    by (simp add: in_int64_def)
  from fits create_movie_inserts_row_of_creator [OF alice_authorized valid_mirror]
  obtain row where
    "movies (fst (post_api_movies ''k'' db0 1000
       (Some (''Bearer'', create_access_token ''k'' 900 [(''sub'', JInt 1)])) mirror))
       = movies db0 @ [row]"
    "m_user_id row = u_id alice" "m_created_at row = 1000" "m_title row = title mirror"
    by blast
  then have inserted: "\<exists>row. movies (fst (post_api_movies ''k'' db0 1000
             (Some (''Bearer'', create_access_token ''k'' 900 [(''sub'', JInt 1)])) mirror))
             = movies db0 @ [row]
         \<and> m_user_id row = 1
         \<and> m_created_at row = 1000
         \<and> m_title row = ''Mirror''"
    by (auto simp: alice_def mirror_def)
  from too_long create_movie_inserts_row_of_creator [OF alice_authorized valid_long_mirror]
  have "post_api_movies ''k'' db0 1000
           (Some (''Bearer'', create_access_token ''k'' 900 [(''sub'', JInt 1)]))
           (mirror\<lparr>duration := 2 ^ 63\<rparr>)
          = (db0, Inl (DataError ''value out of int64 range''))"
    by blast
  with inserted show ?thesis
    using alice_authorized valid_mirror valid_long_mirror fits too_long by blast
qed

end
